theory Spec2Isabelle
  imports Complex_Main "HOL-Library.Sublist"
begin

section \<open>Numbers and strings\<close>

text \<open>
  Both generators compute coordinates with Python numbers (ints and IEEE doubles).
  They are modelled as \<^typ>\<open>real\<close>: every literal and every arithmetic operation of the
  source is kept, rounding of doubles is not modelled.  Strings are byte lists; the
  em dash of the source's f-strings is its three UTF-8 bytes.
\<close>

definition em_dash :: string where
  "em_dash = [CHR 0xE2, CHR 0x80, CHR 0x94]"

section \<open>The DXF generator (generate\_dxf.py)\<close>

subsection \<open>Colours, attributes, entities\<close>

text \<open>AutoCAD Color Index constants of the module.\<close>

definition WHITE :: nat where "WHITE = 7"
definition RED :: nat where "RED = 1"
definition CYAN :: nat where "CYAN = 4"

text \<open>
  The \<open>dxfattribs\<close> dictionary of a call: a key that the call does not give is \<open>None\<close>.
\<close>

record dxfattribs =
  color :: "nat option"
  lineweight :: "nat option"
  linetype :: "string option"
  height :: "real option"
  style :: "string option"

definition no_attribs :: dxfattribs where
  "no_attribs = \<lparr>color = None, lineweight = None, linetype = None, height = None, style = None\<rparr>"

datatype TextEntityAlignment = LEFT | MIDDLE_LEFT | MIDDLE_CENTER | MIDDLE_RIGHT

type_synonym point = "real \<times> real"

datatype entity =
    LWPOLYLINE "point list" dxfattribs
  | LINE point point dxfattribs
  | CIRCLE point real dxfattribs
  | TEXT string dxfattribs point TextEntityAlignment

text \<open>
  The modelspace is the ordered sequence of entities added so far; every \<open>msp.add_*\<close>
  call appends one entity.  \<open>add_text\<close> stands for \<open>msp.add_text(...).set_placement(p, align)\<close>;
  a call of \<open>set_placement\<close> without \<open>align\<close> uses the library default \<open>LEFT\<close>.
\<close>

type_synonym modelspace = "entity list"

definition add_lwpolyline :: "modelspace \<Rightarrow> point list \<Rightarrow> dxfattribs \<Rightarrow> modelspace" where
  "add_lwpolyline msp pts a = msp @ [LWPOLYLINE pts a]"

definition add_line :: "modelspace \<Rightarrow> point \<Rightarrow> point \<Rightarrow> dxfattribs \<Rightarrow> modelspace" where
  "add_line msp p q a = msp @ [LINE p q a]"

definition add_circle :: "modelspace \<Rightarrow> point \<Rightarrow> real \<Rightarrow> dxfattribs \<Rightarrow> modelspace" where
  "add_circle msp p r a = msp @ [CIRCLE p r a]"

definition add_text :: "modelspace \<Rightarrow> string \<Rightarrow> dxfattribs \<Rightarrow> point \<Rightarrow> TextEntityAlignment \<Rightarrow> modelspace" where
  "add_text msp s a p al = msp @ [TEXT s a p al]"

subsection \<open>Sheet frame and symbol library\<close>


text \<open>\<open>add_border(msp, width=1180, height=840)\<close>: the defaults are given at the call.\<close>

definition add_border :: "modelspace \<Rightarrow> real \<Rightarrow> real \<Rightarrow> modelspace" where
  "add_border msp width hgt =
    (let msp = add_lwpolyline msp
        [(0, 0), (width, 0), (width, hgt), (0, hgt), (0, 0)]
        (no_attribs\<lparr>color := Some WHITE, lineweight := Some 70\<rparr>)
     in add_lwpolyline msp
        [(5, 5), (width - 5, 5), (width - 5, hgt - 5), (5, hgt - 5), (5, 5)]
        (no_attribs\<lparr>color := Some WHITE, lineweight := Some 18\<rparr>))"

text \<open>
  \<open>add_room_box(msp, x, y, w, h, label, ref, color=WHITE, fill_pattern=None)\<close>;
  the body never reads \<open>fill_pattern\<close>.
\<close>

definition add_room_box ::
  "modelspace \<Rightarrow> real \<Rightarrow> real \<Rightarrow> real \<Rightarrow> real \<Rightarrow> string \<Rightarrow> string \<Rightarrow> nat \<Rightarrow> modelspace" where
  "add_room_box msp x y w h label ref col =
    (let msp = add_lwpolyline msp
        [(x, y), (x + w, y), (x + w, y + h), (x, y + h), (x, y)]
        (no_attribs\<lparr>color := Some col, lineweight := Some 35\<rparr>);
      msp = add_text msp label
        (no_attribs\<lparr>height := Some 6, color := Some col, style := Some ''TITLE''\<rparr>)
        (x + w / 2, y + h - 10) MIDDLE_CENTER
     in add_text msp ref
        (no_attribs\<lparr>height := Some 4, color := Some RED\<rparr>) (x + w - 5, y + h - 5) MIDDLE_RIGHT)"

definition add_equipment ::
  "modelspace \<Rightarrow> real \<Rightarrow> real \<Rightarrow> real \<Rightarrow> real \<Rightarrow> string \<Rightarrow> string \<Rightarrow> nat \<Rightarrow> bool \<Rightarrow> modelspace" where
  "add_equipment msp x y w h label tag col dashed =
    (let pts = [(x, y), (x + w, y), (x + w, y + h), (x, y + h), (x, y)];
      attribs = no_attribs\<lparr>color := Some col, lineweight := Some 25\<rparr>;
      attribs = (if dashed then attribs\<lparr>linetype := Some ''DASHED''\<rparr> else attribs);
      msp = add_lwpolyline msp pts attribs;
      msp = add_text msp label
        (no_attribs\<lparr>height := Some 4, color := Some col\<rparr>) (x + w / 2, y + h / 2 + 2) MIDDLE_CENTER
     in add_text msp tag
        (no_attribs\<lparr>height := Some 3, color := Some col\<rparr>) (x + w / 2, y + h / 2 - 4) MIDDLE_CENTER)"

text \<open>\<open>add_bus_bar(msp, x, y, length, label, color=WHITE, horizontal=True)\<close>.\<close>

definition add_bus_bar ::
  "modelspace \<Rightarrow> real \<Rightarrow> real \<Rightarrow> real \<Rightarrow> string \<Rightarrow> nat \<Rightarrow> bool \<Rightarrow> modelspace" where
  "add_bus_bar msp x y len label col horizontal =
    (if horizontal then
       (let msp = add_lwpolyline msp [(x, y), (x + len, y)]
          (no_attribs\<lparr>color := Some col, lineweight := Some 70\<rparr>)
        in add_text msp label
          (no_attribs\<lparr>height := Some 4, color := Some col\<rparr>) (x + len / 2, y - 8) MIDDLE_CENTER)
     else
       add_lwpolyline msp [(x, y), (x, y + len)]
         (no_attribs\<lparr>color := Some col, lineweight := Some 70\<rparr>))"

definition add_generator_symbol ::
  "modelspace \<Rightarrow> real \<Rightarrow> real \<Rightarrow> real \<Rightarrow> string \<Rightarrow> string \<Rightarrow> nat \<Rightarrow> modelspace" where
  "add_generator_symbol msp cx cy radius label tag col =
    (let msp = add_circle msp (cx, cy) radius (no_attribs\<lparr>color := Some col, lineweight := Some 35\<rparr>);
      msp = add_text msp ''G''
        (no_attribs\<lparr>height := Some (radius * 1.2), color := Some col, style := Some ''TITLE''\<rparr>)
        (cx, cy) MIDDLE_CENTER;
      msp = add_text msp label
        (no_attribs\<lparr>height := Some 3.5, color := Some col\<rparr>) (cx, cy - radius - 6) MIDDLE_CENTER
     in add_text msp tag
        (no_attribs\<lparr>height := Some 3, color := Some CYAN\<rparr>) (cx, cy - radius - 12) MIDDLE_CENTER)"

definition add_transformer_symbol ::
  "modelspace \<Rightarrow> real \<Rightarrow> real \<Rightarrow> real \<Rightarrow> string \<Rightarrow> nat \<Rightarrow> modelspace" where
  "add_transformer_symbol msp cx cy radius label col =
    (let msp = add_circle msp (cx, cy + radius * 0.4) radius
        (no_attribs\<lparr>color := Some col, lineweight := Some 35\<rparr>);
      msp = add_circle msp (cx, cy - radius * 0.4) radius
        (no_attribs\<lparr>color := Some col, lineweight := Some 35\<rparr>)
     in add_text msp label
        (no_attribs\<lparr>height := Some 3.5, color := Some col\<rparr>) (cx + radius + 5, cy) MIDDLE_LEFT)"

text \<open>\<open>add_cb_symbol(msp, x, y, label="CB", color=WHITE)\<close>.\<close>

definition add_cb_symbol :: "modelspace \<Rightarrow> real \<Rightarrow> real \<Rightarrow> string \<Rightarrow> nat \<Rightarrow> modelspace" where
  "add_cb_symbol msp x y label col =
    (let s = 4 :: real;
      msp = add_lwpolyline msp
        [(x - s, y - s / 2), (x + s, y - s / 2), (x + s, y + s / 2), (x - s, y + s / 2), (x - s, y - s / 2)]
        (no_attribs\<lparr>color := Some col, lineweight := Some 18\<rparr>)
     in add_text msp label
        (no_attribs\<lparr>height := Some 2.5, color := Some col\<rparr>) (x, y) MIDDLE_CENTER)"

subsection \<open>Documents and the legend loops\<close>










subsection \<open>Sheet composers and the batch\<close>











section \<open>The PDF generator (generate\_pdf.py)\<close>

subsection \<open>Units, page and colours\<close>

text \<open>
  \<open>mm\<close>, \<open>A4\<close> and \<open>landscape\<close> are the library's: a millimetre is \<open>72 / 25.4\<close> points,
  A4 is 210 mm by 297 mm, and \<open>landscape\<close> puts the longer side first.
\<close>

definition mm :: real where "mm = 360 / 127"

definition A4 :: "real \<times> real" where "A4 = (210 * mm, 297 * mm)"

definition landscape :: "real \<times> real \<Rightarrow> real \<times> real" where
  "landscape sz = (case sz of (a, b) \<Rightarrow> if a < b then (b, a) else (a, b))"

definition PAGE_W :: real where "PAGE_W = fst (landscape A4)"
definition PAGE_H :: real where "PAGE_H = snd (landscape A4)"
definition MARGIN :: real where "MARGIN = 10 * mm"
definition BORDER :: real where "BORDER = MARGIN + 2 * mm"

datatype Color = HexColor string | black | white

definition C_BORDER :: Color where "C_BORDER = HexColor ''#1a1a2e''"
definition C_TITLE_BG :: Color where "C_TITLE_BG = HexColor ''#16213e''"
definition C_TITLE_TEXT :: Color where "C_TITLE_TEXT = HexColor ''#e2e2e2''"
definition C_GRID :: Color where "C_GRID = HexColor ''#cccccc''"
definition C_WALL :: Color where "C_WALL = HexColor ''#2c3e50''"
definition C_WALL_FILL :: Color where "C_WALL_FILL = HexColor ''#ecf0f1''"
definition C_RACK :: Color where "C_RACK = HexColor ''#2c3e50''"
definition C_RACK_FILL :: Color where "C_RACK_FILL = HexColor ''#34495e''"
definition C_COLD :: Color where "C_COLD = HexColor ''#3498db''"
definition C_DASHED :: Color where "C_DASHED = HexColor ''#7f8c8d''"

definition DRW_LEFT :: real where "DRW_LEFT = BORDER + 2 * mm"
definition DRW_BOTTOM :: real where "DRW_BOTTOM = BORDER + 40 * mm"
definition DRW_RIGHT :: real where "DRW_RIGHT = PAGE_W - BORDER - 2 * mm"
definition DRW_TOP :: real where "DRW_TOP = PAGE_H - BORDER - 2 * mm"
definition DRW_W :: real where "DRW_W = DRW_RIGHT - DRW_LEFT"
definition DRW_H :: real where "DRW_H = DRW_TOP - DRW_BOTTOM"

subsection \<open>The canvas\<close>

text \<open>
  The canvas carries a graphics state that the \<open>set*\<close> calls overwrite, and the page: the
  shapes painted so far, in order.  A shape records the part of the graphics state that
  paints it at the moment of the call: the fill colour when it is filled, colour, width
  and dash pattern of the stroke when it is stroked, font and fill colour for text.
  The empty dash pattern is the solid line.
\<close>

record gstate =
  fillColor :: Color
  strokeColor :: Color
  lineWidth :: real
  dash :: "real list"
  fontName :: string
  fontSize :: real

record stroke_style =
  stroke_color :: Color
  stroke_width :: real
  stroke_dash :: "real list"

record text_style =
  font_name :: string
  font_size :: real
  font_color :: Color

datatype segment = MoveTo real real | LineTo real real | ClosePath

datatype shape =
    Rect real real real real "Color option" "stroke_style option"
  | Line real real real real stroke_style
  | Circle real real real "Color option" "stroke_style option"
  | Path "segment list" "Color option" "stroke_style option"
  | DrawString real real string text_style
  | DrawRightString real real string text_style
  | DrawCentredString real real string text_style

record canvas =
  filename :: string
  pagesize :: "real \<times> real"
  title :: string
  author :: string
  subject :: string
  gs :: gstate
  page :: "shape list"

text \<open>\<open>canvas.Canvas(filepath, pagesize=...)\<close>, with the library's initial graphics state.\<close>

definition Canvas :: "string \<Rightarrow> real \<times> real \<Rightarrow> canvas" where
  "Canvas filepath sz =
    \<lparr>filename = filepath, pagesize = sz, title = ''untitled'', author = ''anonymous'',
     subject = ''unspecified'',
     gs = \<lparr>fillColor = black, strokeColor = black, lineWidth = 1, dash = [],
           fontName = ''Helvetica'', fontSize = 12\<rparr>,
     page = []\<rparr>"




definition setFillColor :: "canvas \<Rightarrow> Color \<Rightarrow> canvas" where
  "setFillColor c col = c\<lparr>gs := (gs c)\<lparr>fillColor := col\<rparr>\<rparr>"

definition setStrokeColor :: "canvas \<Rightarrow> Color \<Rightarrow> canvas" where
  "setStrokeColor c col = c\<lparr>gs := (gs c)\<lparr>strokeColor := col\<rparr>\<rparr>"

definition setLineWidth :: "canvas \<Rightarrow> real \<Rightarrow> canvas" where
  "setLineWidth c w = c\<lparr>gs := (gs c)\<lparr>lineWidth := w\<rparr>\<rparr>"

text \<open>\<open>c.setDash(on, off)\<close> is \<open>setDash c [on, off]\<close>; \<open>c.setDash()\<close> is \<open>setDash c []\<close>.\<close>

definition setDash :: "canvas \<Rightarrow> real list \<Rightarrow> canvas" where
  "setDash c pat = c\<lparr>gs := (gs c)\<lparr>dash := pat\<rparr>\<rparr>"

definition setFont :: "canvas \<Rightarrow> string \<Rightarrow> real \<Rightarrow> canvas" where
  "setFont c name sz = c\<lparr>gs := (gs c)\<lparr>fontName := name, fontSize := sz\<rparr>\<rparr>"

definition cur_fill :: "canvas \<Rightarrow> bool \<Rightarrow> Color option" where
  "cur_fill c fill = (if fill then Some (fillColor (gs c)) else None)"

definition cur_line :: "canvas \<Rightarrow> stroke_style" where
  "cur_line c = \<lparr>stroke_color = strokeColor (gs c), stroke_width = lineWidth (gs c),
     stroke_dash = dash (gs c)\<rparr>"

definition cur_stroke :: "canvas \<Rightarrow> bool \<Rightarrow> stroke_style option" where
  "cur_stroke c stroke = (if stroke then Some (cur_line c) else None)"

definition cur_text :: "canvas \<Rightarrow> text_style" where
  "cur_text c = \<lparr>font_name = fontName (gs c), font_size = fontSize (gs c),
     font_color = fillColor (gs c)\<rparr>"

definition paint :: "canvas \<Rightarrow> shape \<Rightarrow> canvas" where
  "paint c s = c\<lparr>page := page c @ [s]\<rparr>"

text \<open>
  \<open>c.rect(x, y, w, h, stroke=1, fill=0)\<close>, \<open>c.circle(x, y, r, stroke=1, fill=0)\<close> and
  \<open>c.drawPath(p, stroke=1, fill=0)\<close>: the two flags are written at each call here, in the
  order \<open>fill\<close>, \<open>stroke\<close> in which the source passes them.
\<close>

definition rect :: "canvas \<Rightarrow> real \<Rightarrow> real \<Rightarrow> real \<Rightarrow> real \<Rightarrow> bool \<Rightarrow> bool \<Rightarrow> canvas" where
  "rect c x y w h fill stroke = paint c (Rect x y w h (cur_fill c fill) (cur_stroke c stroke))"

definition line :: "canvas \<Rightarrow> real \<Rightarrow> real \<Rightarrow> real \<Rightarrow> real \<Rightarrow> canvas" where
  "line c x1 y1 x2 y2 = paint c (Line x1 y1 x2 y2 (cur_line c))"

definition circle :: "canvas \<Rightarrow> real \<Rightarrow> real \<Rightarrow> real \<Rightarrow> bool \<Rightarrow> bool \<Rightarrow> canvas" where
  "circle c x y r fill stroke = paint c (Circle x y r (cur_fill c fill) (cur_stroke c stroke))"

definition drawPath :: "canvas \<Rightarrow> segment list \<Rightarrow> bool \<Rightarrow> bool \<Rightarrow> canvas" where
  "drawPath c p fill stroke = paint c (Path p (cur_fill c fill) (cur_stroke c stroke))"

definition drawString :: "canvas \<Rightarrow> real \<Rightarrow> real \<Rightarrow> string \<Rightarrow> canvas" where
  "drawString c x y s = paint c (DrawString x y s (cur_text c))"

definition drawRightString :: "canvas \<Rightarrow> real \<Rightarrow> real \<Rightarrow> string \<Rightarrow> canvas" where
  "drawRightString c x y s = paint c (DrawRightString x y s (cur_text c))"

definition drawCentredString :: "canvas \<Rightarrow> real \<Rightarrow> real \<Rightarrow> string \<Rightarrow> canvas" where
  "drawCentredString c x y s = paint c (DrawCentredString x y s (cur_text c))"

text \<open>A path object: \<open>beginPath\<close> is the empty path, each method appends one segment.\<close>

definition beginPath :: "segment list" where "beginPath = []"

definition moveTo :: "segment list \<Rightarrow> real \<Rightarrow> real \<Rightarrow> segment list" where
  "moveTo p x y = p @ [MoveTo x y]"

definition lineTo :: "segment list \<Rightarrow> real \<Rightarrow> real \<Rightarrow> segment list" where
  "lineTo p x y = p @ [LineTo x y]"

definition close_path :: "segment list \<Rightarrow> segment list" where
  "close_path p = p @ [ClosePath]"

subsection \<open>Sheet frame\<close>

definition draw_border :: "canvas \<Rightarrow> canvas" where
  "draw_border c =
    (let c = setStrokeColor c C_BORDER;
      c = setLineWidth c 0.5;
      c = rect c MARGIN MARGIN (PAGE_W - 2 * MARGIN) (PAGE_H - 2 * MARGIN) False True;
      c = setLineWidth c 1.5
     in rect c BORDER BORDER (PAGE_W - 2 * BORDER) (PAGE_H - 2 * BORDER) False True)"

text \<open>\<open>draw_title_block(c, dwg_no, title, subtitle, standard, rev="A", scale="NTS")\<close>.\<close>

definition draw_title_block ::
  "canvas \<Rightarrow> string \<Rightarrow> string \<Rightarrow> string \<Rightarrow> string \<Rightarrow> string \<Rightarrow> string \<Rightarrow> canvas" where
  "draw_title_block c dwg_no ttl subtitle standard rev' scale' =
    (let tb_x = BORDER; tb_y = BORDER; tb_w = PAGE_W - 2 * BORDER; tb_h = 36 * mm;
      c = setFillColor c C_TITLE_BG;
      c = rect c tb_x tb_y tb_w tb_h True False;
      c = setStrokeColor c C_TITLE_TEXT;
      c = setLineWidth c 0.5;
      c = line c tb_x (tb_y + 12 * mm) (tb_x + tb_w) (tb_y + 12 * mm);
      c = line c tb_x (tb_y + 24 * mm) (tb_x + tb_w) (tb_y + 24 * mm);
      c = line c (tb_x + 80 * mm) tb_y (tb_x + 80 * mm) (tb_y + 24 * mm);
      c = line c (tb_x + 160 * mm) tb_y (tb_x + 160 * mm) (tb_y + 24 * mm);
      c = line c (tb_x + 200 * mm) tb_y (tb_x + 200 * mm) (tb_y + 12 * mm);
      c = setFillColor c white;
      c = setFont c ''Helvetica-Bold'' 14;
      c = drawString c (tb_x + 6 * mm) (tb_y + 27 * mm)
            (''SATSIBER DATA CENTER '' @ em_dash @ '' '' @ ttl);
      c = setFont c ''Helvetica'' 8;
      c = drawRightString c (tb_x + tb_w - 4 * mm) (tb_y + 27 * mm) ''UPTIME TIER III DESIGN'';
      c = setFont c ''Helvetica'' 7;
      c = setFillColor c (HexColor ''#aaaaaa'');
      c = drawString c (tb_x + 4 * mm) (tb_y + 19 * mm) ''PROJECT'';
      c = drawString c (tb_x + 84 * mm) (tb_y + 19 * mm) ''SUBTITLE'';
      c = drawString c (tb_x + 164 * mm) (tb_y + 19 * mm) ''CLASSIFICATION'';
      c = setFillColor c white;
      c = setFont c ''Helvetica-Bold'' 9;
      c = drawString c (tb_x + 4 * mm) (tb_y + 14 * mm) ''Satsiber New Data Center'';
      c = drawString c (tb_x + 84 * mm) (tb_y + 14 * mm) subtitle;
      c = drawString c (tb_x + 164 * mm) (tb_y + 14 * mm) ''CONFIDENTIAL'';
      c = setFont c ''Helvetica'' 7;
      c = setFillColor c (HexColor ''#aaaaaa'');
      c = drawString c (tb_x + 4 * mm) (tb_y + 7 * mm) ''DWG NO.'';
      c = drawString c (tb_x + 84 * mm) (tb_y + 7 * mm) ''STANDARD'';
      c = drawString c (tb_x + 164 * mm) (tb_y + 7 * mm) ''SCALE'';
      c = drawString c (tb_x + 204 * mm) (tb_y + 7 * mm) ''REV'';
      c = setFillColor c white;
      c = setFont c ''Helvetica-Bold'' 10;
      c = drawString c (tb_x + 4 * mm) (tb_y + 2 * mm) dwg_no;
      c = setFont c ''Helvetica'' 9;
      c = drawString c (tb_x + 84 * mm) (tb_y + 2 * mm) standard;
      c = drawString c (tb_x + 164 * mm) (tb_y + 2 * mm) scale';
      c = drawString c (tb_x + 204 * mm) (tb_y + 2 * mm) rev';
      c = setFont c ''Helvetica'' 7;
      c = setFillColor c (HexColor ''#aaaaaa'');
      c = drawString c (tb_x + 230 * mm) (tb_y + 7 * mm) ''DATE'';
      c = setFillColor c white;
      c = setFont c ''Helvetica'' 9
     in drawString c (tb_x + 230 * mm) (tb_y + 2 * mm) ''2026-02-27'')"

text \<open>The two loops of \<open>draw_grid_refs\<close> over \<open>enumerate(cols)\<close> and \<open>enumerate(rows)\<close>.\<close>

definition grid_col :: "nat \<Rightarrow> canvas \<Rightarrow> nat \<times> char \<Rightarrow> canvas" where
  "grid_col n c ich =
    (case ich of (i, ch) \<Rightarrow>
      (let x = DRW_LEFT + (real i + 0.5) * DRW_W / real n;
        c = drawCentredString c x (DRW_TOP + 2 * mm) [ch]
       in drawCentredString c x (DRW_BOTTOM - 6 * mm) [ch]))"

definition grid_row :: "nat \<Rightarrow> canvas \<Rightarrow> nat \<times> char \<Rightarrow> canvas" where
  "grid_row n c ich =
    (case ich of (i, ch) \<Rightarrow>
      (let y = DRW_BOTTOM + (real i + 0.5) * DRW_H / real n;
        c = drawCentredString c (DRW_LEFT - 5 * mm) (y - 2) [ch]
       in drawCentredString c (DRW_RIGHT + 5 * mm) (y - 2) [ch]))"

definition draw_grid_refs :: "canvas \<Rightarrow> canvas" where
  "draw_grid_refs c =
    (let c = setFont c ''Helvetica'' 6;
      c = setFillColor c C_GRID;
      cols = ''ABCDEFGHJK'';
      c = foldl (grid_col (length cols)) c (enumerate 0 cols);
      rows = ''12345678''
     in foldl (grid_row (length rows)) c (enumerate 0 rows))"

subsection \<open>Primitive and symbol helpers\<close>

text \<open>
  \<open>draw_room(c, x, y, w, h, label, ref_id=None, fill=C_WALL_FILL, text_color=C_WALL)\<close>.
  The test \<open>if ref_id:\<close> holds for a string that is neither \<open>None\<close> nor empty.
\<close>

definition draw_room ::
  "canvas \<Rightarrow> real \<Rightarrow> real \<Rightarrow> real \<Rightarrow> real \<Rightarrow> string \<Rightarrow> string option \<Rightarrow> Color \<Rightarrow> Color \<Rightarrow> canvas" where
  "draw_room c x y w h label ref_id fill text_color =
    (let c = setFillColor c fill;
      c = setStrokeColor c C_WALL;
      c = setLineWidth c 1.2;
      c = rect c x y w h True True;
      c = setFillColor c text_color;
      c = setFont c ''Helvetica-Bold'' 7;
      c = drawCentredString c (x + w / 2) (y + h / 2 + 2) label
     in (case ref_id of
           None \<Rightarrow> c
         | Some r \<Rightarrow>
            if r \<noteq> [] then
              (let c = setFont c ''Helvetica'' 5.5;
                c = setFillColor c (HexColor ''#666666'')
               in drawCentredString c (x + w / 2) (y + h / 2 - 6) r)
            else c))"

text \<open>\<open>draw_rack(c, x, y, w, h, label, fill=C_RACK_FILL)\<close>.\<close>

definition draw_rack ::
  "canvas \<Rightarrow> real \<Rightarrow> real \<Rightarrow> real \<Rightarrow> real \<Rightarrow> string \<Rightarrow> Color \<Rightarrow> canvas" where
  "draw_rack c x y w h label fill =
    (let c = setFillColor c fill;
      c = setStrokeColor c C_RACK;
      c = setLineWidth c 0.8;
      c = rect c x y w h True True;
      c = setFillColor c white;
      c = setFont c ''Helvetica-Bold'' 4.5
     in drawCentredString c (x + w / 2) (y + h / 2 - 1.5) label)"

text \<open>
  \<open>math.atan2(y, x)\<close> on real numbers: the angle of the point \<open>(x, y)\<close> in \<open>(-pi, pi]\<close>,
  and \<open>0\<close> at the origin (the library returns \<open>0.0\<close> for \<open>atan2(0.0, 0.0)\<close>; it raises
  for no pair of numbers).
\<close>

definition atan2 :: "real \<Rightarrow> real \<Rightarrow> real" where
  "atan2 y x =
    (if 0 < x then arctan (y / x)
     else if x < 0 then (if 0 \<le> y then arctan (y / x) + pi else arctan (y / x) - pi)
     else if 0 < y then pi / 2
     else if y < 0 then - (pi / 2)
     else 0)"

text \<open>\<open>draw_arrow(c, x1, y1, x2, y2, color=black, width=0.8)\<close>.\<close>

definition draw_arrow ::
  "canvas \<Rightarrow> real \<Rightarrow> real \<Rightarrow> real \<Rightarrow> real \<Rightarrow> Color \<Rightarrow> real \<Rightarrow> canvas" where
  "draw_arrow c x1 y1 x2 y2 col width =
    (let c = setStrokeColor c col;
      c = setFillColor c col;
      c = setLineWidth c width;
      c = line c x1 y1 x2 y2;
      angle = atan2 (y2 - y1) (x2 - x1);
      alen = 3 * mm;
      p = beginPath;
      p = moveTo p x2 y2;
      p = lineTo p (x2 - alen * cos (angle - 0.3)) (y2 - alen * sin (angle - 0.3));
      p = lineTo p (x2 - alen * cos (angle + 0.3)) (y2 - alen * sin (angle + 0.3));
      p = close_path p
     in drawPath c p True False)"

text \<open>\<open>draw_dashed_rect(c, x, y, w, h, color=C_DASHED, width=0.6)\<close>.\<close>

definition draw_dashed_rect ::
  "canvas \<Rightarrow> real \<Rightarrow> real \<Rightarrow> real \<Rightarrow> real \<Rightarrow> Color \<Rightarrow> real \<Rightarrow> canvas" where
  "draw_dashed_rect c x y w h col width =
    (let c = setStrokeColor c col;
      c = setLineWidth c width;
      c = setDash c [3, 2];
      c = rect c x y w h False True
     in setDash c [])"

text \<open>\<open>draw_legend_item(c, x, y, color, label, shape="rect")\<close>.\<close>

definition draw_legend_item ::
  "canvas \<Rightarrow> real \<Rightarrow> real \<Rightarrow> Color \<Rightarrow> string \<Rightarrow> string \<Rightarrow> canvas" where
  "draw_legend_item c x y col label shp =
    (let c =
       (if shp = ''rect'' then
          (let c = setFillColor c col;
            c = setStrokeColor c black;
            c = setLineWidth c 0.4
           in rect c x y (4 * mm) (3 * mm) True True)
        else if shp = ''line'' then
          (let c = setStrokeColor c col;
            c = setLineWidth c 1.5
           in line c x (y + 1.5 * mm) (x + 4 * mm) (y + 1.5 * mm))
        else if shp = ''dash'' then
          (let c = setStrokeColor c col;
            c = setLineWidth c 1;
            c = setDash c [2, 1.5];
            c = line c x (y + 1.5 * mm) (x + 4 * mm) (y + 1.5 * mm)
           in setDash c [])
        else if shp = ''circle'' then
          (let c = setFillColor c col;
            c = setStrokeColor c black;
            c = setLineWidth c 0.4
           in circle c (x + 2 * mm) (y + 1.5 * mm) (1.5 * mm) True True)
        else c);
      c = setFillColor c black;
      c = setFont c ''Helvetica'' 5.5
     in drawString c (x + 6 * mm) (y + 0.5 * mm) label)"

definition draw_north_arrow :: "canvas \<Rightarrow> real \<Rightarrow> real \<Rightarrow> canvas" where
  "draw_north_arrow c x y =
    (let c = setStrokeColor c black;
      c = setFillColor c black;
      c = setLineWidth c 0.8;
      p = beginPath;
      p = moveTo p x y;
      p = lineTo p (x - 2 * mm) (y - 6 * mm);
      p = lineTo p x (y - 4.5 * mm);
      p = lineTo p (x + 2 * mm) (y - 6 * mm);
      p = close_path p;
      c = drawPath c p True True;
      c = setFont c ''Helvetica-Bold'' 7
     in drawCentredString c x (y + 2 * mm) ''N'')"

subsection \<open>Sheet composers and the batch\<close>



















section \<open>Vocabulary of the statements\<close>

text \<open>Euclidean distance between two points of a sheet.\<close>

definition distance :: "point \<Rightarrow> point \<Rightarrow> real" where
  "distance p q = sqrt ((fst p - fst q)\<^sup>2 + (snd p - snd q)\<^sup>2)"

text \<open>The dash pattern a shape is stroked with; the empty pattern for a shape without stroke.\<close>

fun shape_dash :: "shape \<Rightarrow> real list" where
  "shape_dash (Rect x y w h f s) = (case s of None \<Rightarrow> [] | Some st \<Rightarrow> stroke_dash st)"
| "shape_dash (Line x1 y1 x2 y2 st) = stroke_dash st"
| "shape_dash (Circle x y r f s) = (case s of None \<Rightarrow> [] | Some st \<Rightarrow> stroke_dash st)"
| "shape_dash (Path p f s) = (case s of None \<Rightarrow> [] | Some st \<Rightarrow> stroke_dash st)"
| "shape_dash (DrawString x y s t) = []"
| "shape_dash (DrawRightString x y s t) = []"
| "shape_dash (DrawCentredString x y s t) = []"

text \<open>
  A call of one of the nine helpers of the PDF generator with its arguments, and its
  effect on the canvas; \<open>sets_dash\<close> holds for the two calls that ask for a dashed stroke.
\<close>

datatype helper_call =
    Border
  | TitleBlock string string string string string string
  | GridRefs
  | Room real real real real string "string option" Color Color
  | Rack real real real real string Color
  | Arrow real real real real Color real
  | DashedRect real real real real Color real
  | LegendItem real real Color string string
  | NorthArrow real real

fun call :: "canvas \<Rightarrow> helper_call \<Rightarrow> canvas" where
  "call c Border = draw_border c"
| "call c (TitleBlock dwg_no ttl subtitle standard r s) =
     draw_title_block c dwg_no ttl subtitle standard r s"
| "call c GridRefs = draw_grid_refs c"
| "call c (Room x y w h label ref_id fill text_color) =
     draw_room c x y w h label ref_id fill text_color"
| "call c (Rack x y w h label fill) = draw_rack c x y w h label fill"
| "call c (Arrow x1 y1 x2 y2 col width) = draw_arrow c x1 y1 x2 y2 col width"
| "call c (DashedRect x y w h col width) = draw_dashed_rect c x y w h col width"
| "call c (LegendItem x y col label shp) = draw_legend_item c x y col label shp"
| "call c (NorthArrow x y) = draw_north_arrow c x y"

fun sets_dash :: "helper_call \<Rightarrow> bool" where
  "sets_dash (DashedRect x y w h col width) = True"
| "sets_dash (LegendItem x y col label shp) = (shp = ''dash'')"
| "sets_dash k = False"

text \<open>
  The canvas is in the solid state, and every shape painted after the first \<open>n\<close> is solid.
\<close>

definition solid_from :: "nat \<Rightarrow> canvas \<Rightarrow> bool" where
  "solid_from n c \<longleftrightarrow>
     dash (gs c) = [] \<and> n \<le> length (page c) \<and> list_all (\<lambda>s. shape_dash s = []) (drop n (page c))"

text \<open>The swatch of a legend entry, for the dash pattern \<open>d\<close> of the canvas at the call.\<close>

definition legend_swatch :: "real list \<Rightarrow> real \<Rightarrow> real \<Rightarrow> Color \<Rightarrow> string \<Rightarrow> shape list" where
  "legend_swatch d x y col shp =
    (if shp = ''rect'' then
       [Rect x y (4 * mm) (3 * mm) (Some col)
          (Some \<lparr>stroke_color = black, stroke_width = 0.4, stroke_dash = d\<rparr>)]
     else if shp = ''line'' then
       [Line x (y + 1.5 * mm) (x + 4 * mm) (y + 1.5 * mm)
          \<lparr>stroke_color = col, stroke_width = 1.5, stroke_dash = d\<rparr>]
     else if shp = ''dash'' then
       [Line x (y + 1.5 * mm) (x + 4 * mm) (y + 1.5 * mm)
          \<lparr>stroke_color = col, stroke_width = 1, stroke_dash = [2, 1.5]\<rparr>]
     else if shp = ''circle'' then
       [Circle (x + 2 * mm) (y + 1.5 * mm) (1.5 * mm) (Some col)
          (Some \<lparr>stroke_color = black, stroke_width = 0.4, stroke_dash = d\<rparr>)]
     else [])"



definition kept :: "canvas \<Rightarrow> canvas \<Rightarrow> bool" where
  "kept c c' \<longleftrightarrow> filename c' = filename c \<and> prefix (page c) (page c')"


section \<open>Basic facts\<close>

lemmas dxf_prims = add_lwpolyline_def add_line_def add_circle_def add_text_def

lemmas pdf_prims = setFillColor_def setStrokeColor_def setLineWidth_def setDash_def setFont_def
  cur_fill_def cur_line_def cur_stroke_def cur_text_def paint_def rect_def line_def circle_def
  drawPath_def drawString_def drawRightString_def drawCentredString_def
  beginPath_def moveTo_def lineTo_def close_path_def

lemma mm_pos: "0 < mm"
  by (simp add: mm_def)

lemma page_dims: "PAGE_W = 297 * mm" "PAGE_H = 210 * mm"
  by (simp_all add: PAGE_W_def PAGE_H_def landscape_def A4_def mm_def)



text \<open>
  \<open>atan2 y x\<close> is the angle of the point \<open>(x, y)\<close>: away from the origin, the point lies
  in that direction, and the angle is in \<open>(-pi, pi]\<close>.
\<close>

lemma sqrt_ratio:
  fixes x y :: real
  assumes "x \<noteq> 0"
  shows "sqrt (1 + (y / x)\<^sup>2) = sqrt (x\<^sup>2 + y\<^sup>2) / \<bar>x\<bar>"
proof -
  have "1 + (y / x)\<^sup>2 = (x\<^sup>2 + y\<^sup>2) / x\<^sup>2"
    using assms by (simp add: power_divide add_divide_distrib)
  then show ?thesis by (simp add: real_sqrt_divide)
qed

lemma atan2_polar:
  fixes x y :: real
  assumes "x \<noteq> 0 \<or> y \<noteq> 0"
  shows "cos (atan2 y x) = x / sqrt (x\<^sup>2 + y\<^sup>2) \<and> sin (atan2 y x) = y / sqrt (x\<^sup>2 + y\<^sup>2)"
proof -
  consider (pos) "0 < x" | (neg) "x < 0" | (up) "x = 0" "0 < y" | (down) "x = 0" "y < 0"
    using assms by linarith
  then show ?thesis
  proof cases
    case pos
    then have "sqrt (1 + (y / x)\<^sup>2) = sqrt (x\<^sup>2 + y\<^sup>2) / x"
      using sqrt_ratio [of x y] by simp
    with pos show ?thesis
      by (simp add: atan2_def cos_arctan sin_arctan)
  next
    case neg
    then have s: "sqrt (1 + (y / x)\<^sup>2) = - (sqrt (x\<^sup>2 + y\<^sup>2) / x)"
      using sqrt_ratio [of x y] by simp
    have c: "cos (arctan (y / x) + pi) = - cos (arctan (y / x))"
      "sin (arctan (y / x) + pi) = - sin (arctan (y / x))"
      "cos (arctan (y / x) - pi) = - cos (arctan (y / x))"
      "sin (arctan (y / x) - pi) = - sin (arctan (y / x))"
      by (simp_all add: cos_diff sin_diff)
    from neg show ?thesis
      by (simp add: atan2_def c cos_arctan sin_arctan s)
  next
    case up
    then show ?thesis by (simp add: atan2_def)
  next
    case down
    then show ?thesis by (simp add: atan2_def)
  qed
qed

lemma atan2_range: "- pi < atan2 y x \<and> atan2 y x \<le> pi"
proof -
  have b: "- (pi / 2) < arctan (y / x)" "arctan (y / x) < pi / 2"
    by (rule arctan_lbound, rule arctan_ubound)
  have z: "x < 0 \<Longrightarrow> 0 \<le> y \<Longrightarrow> arctan (y / x) \<le> 0"
    by (simp add: divide_nonneg_neg)
  have p: "x < 0 \<Longrightarrow> y < 0 \<Longrightarrow> 0 < arctan (y / x)"
    by (simp add: divide_neg_neg)
  show ?thesis
    using b z p pi_gt_zero by (auto simp: atan2_def)
qed

lemma head_distance:
  fixes a r x y :: real
  assumes "0 \<le> r"
  shows "distance (x + r * cos a, y + r * sin a) (x, y) = r"
proof -
  have "(r * cos a)\<^sup>2 + (r * sin a)\<^sup>2 = r\<^sup>2 * ((cos a)\<^sup>2 + (sin a)\<^sup>2)"
    by (simp only: power_mult_distrib distrib_left)
  also have "\<dots> = r\<^sup>2" by simp
  finally have "sqrt ((r * cos a)\<^sup>2 + (r * sin a)\<^sup>2) = r" using assms by simp
  then show ?thesis by (simp add: distance_def)
qed

section \<open>The arrow primitive\<close>

text \<open>
  Claim C1.  For all end points and every style (colour and width), \<open>draw_arrow\<close> paints
  exactly two shapes: the line from \<open>(x1, y1)\<close> to \<open>(x2, y2)\<close>, and a filled, unstroked,
  closed triangle that starts at \<open>(x2, y2)\<close> and whose two other vertices lie in the
  directions \<open>\<theta> + pi - 0.3\<close> and \<open>\<theta> + pi + 0.3\<close> from \<open>(x2, y2)\<close>, at distance \<open>3 * mm\<close>
  (three millimetres in canvas units), where \<open>\<theta> = atan2 (y2 - y1) (x2 - x1)\<close>.
\<close>

theorem draw_arrow_head_geometry:
  "(let \<theta> = atan2 (y2 - y1) (x2 - x1);
        v1 = (x2 + 3 * mm * cos (\<theta> + pi - 0.3), y2 + 3 * mm * sin (\<theta> + pi - 0.3));
        v2 = (x2 + 3 * mm * cos (\<theta> + pi + 0.3), y2 + 3 * mm * sin (\<theta> + pi + 0.3))
    in page (draw_arrow c x1 y1 x2 y2 col width) = page c @
         [Line x1 y1 x2 y2 \<lparr>stroke_color = col, stroke_width = width, stroke_dash = dash (gs c)\<rparr>,
          Path [MoveTo x2 y2, LineTo (fst v1) (snd v1), LineTo (fst v2) (snd v2), ClosePath]
            (Some col) None]
       \<and> distance v1 (x2, y2) = 3 * mm \<and> distance v2 (x2, y2) = 3 * mm)"
proof -
  define t where "t = atan2 (y2 - y1) (x2 - x1)"
  have a: "cos (t + pi - 0.3) = - cos (t - 0.3)" "sin (t + pi - 0.3) = - sin (t - 0.3)"
    using cos_periodic_pi [of "t - 0.3"] sin_periodic_pi [of "t - 0.3"]
    by (simp_all add: algebra_simps)
  have b: "cos (t + pi + 0.3) = - cos (t + 0.3)" "sin (t + pi + 0.3) = - sin (t + 0.3)"
    using cos_periodic_pi [of "t + 0.3"] sin_periodic_pi [of "t + 0.3"]
    by (simp_all add: algebra_simps)
  have r: "0 \<le> 3 * mm" using mm_pos by simp
  have pg: "page (draw_arrow c x1 y1 x2 y2 col width) = page c @
      [Line x1 y1 x2 y2 \<lparr>stroke_color = col, stroke_width = width, stroke_dash = dash (gs c)\<rparr>,
       Path [MoveTo x2 y2,
             LineTo (x2 + 3 * mm * cos (t + pi - 0.3)) (y2 + 3 * mm * sin (t + pi - 0.3)),
             LineTo (x2 + 3 * mm * cos (t + pi + 0.3)) (y2 + 3 * mm * sin (t + pi + 0.3)),
             ClosePath] (Some col) None]"
    unfolding a b by (simp add: draw_arrow_def pdf_prims Let_def t_def)
  show ?thesis
    unfolding Let_def t_def [symmetric] fst_conv snd_conv
    using pg head_distance [OF r] by simp
qed


section \<open>Shape helpers and their geometry\<close>

lemma room_page:
  "page (draw_room c x y w h label ref_id fill text_color) =
    page c @
      [Rect x y w h (Some fill)
         (Some \<lparr>stroke_color = C_WALL, stroke_width = 1.2, stroke_dash = dash (gs c)\<rparr>),
       DrawCentredString (x + w / 2) (y + h / 2 + 2) label
         \<lparr>font_name = ''Helvetica-Bold'', font_size = 7, font_color = text_color\<rparr>] @
      (case ref_id of None \<Rightarrow> []
       | Some r \<Rightarrow> if r \<noteq> [] then
           [DrawCentredString (x + w / 2) (y + h / 2 - 6) r
             \<lparr>font_name = ''Helvetica'', font_size = 5.5, font_color = HexColor ''#666666''\<rparr>]
         else [])"
  by (simp add: draw_room_def pdf_prims Let_def split: option.split)





section \<open>The border\<close>

text \<open>
  Claim C5, as stated, fails for the PDF renderer: on a fresh canvas \<open>draw_border\<close>
  strokes the outer rectangle (at \<open>MARGIN\<close>) with the width \<open>0.5\<close> and the inner one
  (at \<open>BORDER\<close>) with the width \<open>1.5\<close>, so the outer line is the lighter one.
\<close>

theorem pdf_border_outer_is_lighter:
  "page (draw_border (Canvas ''border.pdf'' (landscape A4))) =
    [Rect MARGIN MARGIN (PAGE_W - 2 * MARGIN) (PAGE_H - 2 * MARGIN) None
       (Some \<lparr>stroke_color = C_BORDER, stroke_width = 0.5, stroke_dash = []\<rparr>),
     Rect BORDER BORDER (PAGE_W - 2 * BORDER) (PAGE_H - 2 * BORDER) None
       (Some \<lparr>stroke_color = C_BORDER, stroke_width = 1.5, stroke_dash = []\<rparr>)]
  \<and> MARGIN < BORDER \<and> \<not> ((1.5::real) < 0.5)"
  by (simp add: draw_border_def Canvas_def pdf_prims Let_def MARGIN_def BORDER_def mm_def)

text \<open>
  Claim C5, amended.  Both border helpers emit exactly two rectangles, one inside the
  other at fixed insets.  In the DXF renderer the outer one lies on the page edge with
  line weight 70 and the inner one 5 units inside with line weight 18: the outer is the
  heavier.  In the PDF renderer the outer one lies \<open>MARGIN\<close> (10 mm) inside the page with
  line width 0.5 and the inner one \<open>BORDER\<close> (12 mm) inside with line width 1.5: the
  inner is the heavier.
\<close>

theorem border_rectangles:
  "add_border msp width hgt = msp @
    [LWPOLYLINE [(0, 0), (width, 0), (width, hgt), (0, hgt), (0, 0)]
       (no_attribs\<lparr>color := Some WHITE, lineweight := Some 70\<rparr>),
     LWPOLYLINE [(5, 5), (width - 5, 5), (width - 5, hgt - 5), (5, hgt - 5), (5, 5)]
       (no_attribs\<lparr>color := Some WHITE, lineweight := Some 18\<rparr>)]
  \<and> (18::nat) < 70
  \<and> page (draw_border c) = page c @
    [Rect MARGIN MARGIN (PAGE_W - 2 * MARGIN) (PAGE_H - 2 * MARGIN) None
       (Some \<lparr>stroke_color = C_BORDER, stroke_width = 0.5, stroke_dash = dash (gs c)\<rparr>),
     Rect BORDER BORDER (PAGE_W - 2 * BORDER) (PAGE_H - 2 * BORDER) None
       (Some \<lparr>stroke_color = C_BORDER, stroke_width = 1.5, stroke_dash = dash (gs c)\<rparr>)]
  \<and> 0 < MARGIN \<and> MARGIN < BORDER
  \<and> BORDER + (PAGE_W - 2 * BORDER) < MARGIN + (PAGE_W - 2 * MARGIN)
  \<and> BORDER + (PAGE_H - 2 * BORDER) < MARGIN + (PAGE_H - 2 * MARGIN)
  \<and> MARGIN + (PAGE_W - 2 * MARGIN) < PAGE_W
  \<and> MARGIN + (PAGE_H - 2 * MARGIN) < PAGE_H
  \<and> (0.5::real) < 1.5"
  by (simp add: add_border_def dxf_prims draw_border_def pdf_prims Let_def MARGIN_def BORDER_def
      mm_def)

section \<open>The bus bar\<close>

text \<open>
  Claim C7 at a vertical bus bar: \<open>add_bus_bar\<close> with \<open>horizontal=False\<close> adds the thick
  line alone; the label it was given appears in no entity.
\<close>

theorem add_bus_bar_vertical_has_no_label:
  "add_bus_bar [] 0 0 100 ''BUS A'' WHITE False =
    [LWPOLYLINE [(0, 0), (0, 100)] (no_attribs\<lparr>color := Some WHITE, lineweight := Some 70\<rparr>)]"
  by (simp add: add_bus_bar_def dxf_prims)

lemma add_bus_bar_horizontal:
  "add_bus_bar msp x y len label col True = msp @
    [LWPOLYLINE [(x, y), (x + len, y)] (no_attribs\<lparr>color := Some col, lineweight := Some 70\<rparr>),
     TEXT label (no_attribs\<lparr>height := Some 4, color := Some col\<rparr>) (x + len / 2, y - 8) MIDDLE_CENTER]"
  by (simp add: add_bus_bar_def dxf_prims)

section \<open>Legends\<close>





lemma legend_page:
  "page (draw_legend_item c x y col label shp) =
    page c @ legend_swatch (dash (gs c)) x y col shp @
      [DrawString (x + 6 * mm) (y + 0.5 * mm) label
         \<lparr>font_name = ''Helvetica'', font_size = 5.5, font_color = black\<rparr>]"
  by (simp add: draw_legend_item_def legend_swatch_def pdf_prims Let_def)



section \<open>The dash state of the canvas\<close>

lemma solid_from_start: "dash (gs c) = [] \<Longrightarrow> solid_from (length (page c)) c"
  by (simp add: solid_from_def)

lemma solid_from_set [simp]:
  "solid_from n (setFillColor c col) = solid_from n c"
  "solid_from n (setStrokeColor c col) = solid_from n c"
  "solid_from n (setLineWidth c w) = solid_from n c"
  "solid_from n (setFont c f sz) = solid_from n c"
  by (simp_all add: solid_from_def pdf_prims)

lemma solid_from_paint:
  "solid_from n c \<Longrightarrow> solid_from n (rect c x y w h fl st)"
  "solid_from n c \<Longrightarrow> solid_from n (line c x1 y1 x2 y2)"
  "solid_from n c \<Longrightarrow> solid_from n (circle c x y r fl st)"
  "solid_from n c \<Longrightarrow> solid_from n (drawPath c p fl st)"
  "solid_from n c \<Longrightarrow> solid_from n (drawString c x y s)"
  "solid_from n c \<Longrightarrow> solid_from n (drawRightString c x y s)"
  "solid_from n c \<Longrightarrow> solid_from n (drawCentredString c x y s)"
  by (simp_all add: solid_from_def pdf_prims)

lemma solid_from_grid_col: "solid_from n c \<Longrightarrow> solid_from n (foldl (grid_col k) c xs)"
  by (induction xs arbitrary: c)
    (simp_all add: grid_col_def Let_def solid_from_paint split: prod.split)

lemma solid_from_grid_row: "solid_from n c \<Longrightarrow> solid_from n (foldl (grid_row k) c xs)"
  by (induction xs arbitrary: c)
    (simp_all add: grid_row_def Let_def solid_from_paint split: prod.split)

lemma solid_border: "solid_from n c \<Longrightarrow> solid_from n (draw_border c)"
  by (simp add: draw_border_def Let_def solid_from_paint)

lemma solid_title: "solid_from n c \<Longrightarrow> solid_from n (draw_title_block c a b d e f g)"
  by (simp add: draw_title_block_def Let_def solid_from_paint)

lemma solid_grid: "solid_from n c \<Longrightarrow> solid_from n (draw_grid_refs c)"
  unfolding draw_grid_refs_def Let_def
  by (intro solid_from_grid_row solid_from_grid_col) (simp only: solid_from_set)

lemma solid_room: "solid_from n c \<Longrightarrow> solid_from n (draw_room c x y w h l r f t)"
  by (simp add: draw_room_def Let_def solid_from_paint split: option.split)

lemma solid_rack: "solid_from n c \<Longrightarrow> solid_from n (draw_rack c x y w h l f)"
  by (simp add: draw_rack_def Let_def solid_from_paint)

lemma solid_arrow: "solid_from n c \<Longrightarrow> solid_from n (draw_arrow c x1 y1 x2 y2 col w)"
  by (simp add: draw_arrow_def Let_def solid_from_paint)

lemma solid_north: "solid_from n c \<Longrightarrow> solid_from n (draw_north_arrow c x y)"
  by (simp add: draw_north_arrow_def Let_def solid_from_paint)

lemma solid_legend:
  "shp \<noteq> ''dash'' \<Longrightarrow> solid_from n c \<Longrightarrow> solid_from n (draw_legend_item c x y col l shp)"
  by (simp add: draw_legend_item_def Let_def solid_from_paint)

lemma solid_call: "\<not> sets_dash k \<Longrightarrow> solid_from n c \<Longrightarrow> solid_from n (call c k)"
  by (cases k) (simp_all add: solid_border solid_title solid_grid solid_room solid_rack
      solid_arrow solid_north solid_legend)

lemma dash_prims [simp]:
  "dash (gs (setFillColor c col)) = dash (gs c)"
  "dash (gs (setStrokeColor c col)) = dash (gs c)"
  "dash (gs (setLineWidth c w)) = dash (gs c)"
  "dash (gs (setFont c f sz)) = dash (gs c)"
  "dash (gs (setDash c pat)) = pat"
  "dash (gs (rect c x y w h fl st)) = dash (gs c)"
  "dash (gs (line c x1 y1 x2 y2)) = dash (gs c)"
  "dash (gs (circle c x y r fl st)) = dash (gs c)"
  "dash (gs (drawPath c p fl st)) = dash (gs c)"
  "dash (gs (drawString c x y s)) = dash (gs c)"
  "dash (gs (drawRightString c x y s)) = dash (gs c)"
  "dash (gs (drawCentredString c x y s)) = dash (gs c)"
  by (simp_all add: pdf_prims)

lemma dash_grid_col: "dash (gs (foldl (grid_col k) c xs)) = dash (gs c)"
  by (induction xs arbitrary: c) (auto simp: grid_col_def Let_def)

lemma dash_grid_row: "dash (gs (foldl (grid_row k) c xs)) = dash (gs c)"
  by (induction xs arbitrary: c) (auto simp: grid_row_def Let_def)

lemma dash_grid: "dash (gs (draw_grid_refs c)) = dash (gs c)"
  unfolding draw_grid_refs_def Let_def
  by (simp only: dash_grid_col dash_grid_row dash_prims)

lemma dash_call: "dash (gs (call c k)) = (if sets_dash k then [] else dash (gs c))"
  by (cases k)
    (simp_all add: draw_border_def draw_title_block_def dash_grid draw_room_def
      draw_rack_def draw_arrow_def draw_dashed_rect_def draw_legend_item_def draw_north_arrow_def
      Let_def split: option.split)

lemma dash_calls: "dash (gs c) = [] \<Longrightarrow> dash (gs (foldl call c calls)) = []"
  by (induction calls arbitrary: c) (simp_all add: dash_call)

text \<open>
  Claim C10.  The two helpers that set a dash pattern, \<open>draw_dashed_rect\<close> and
  \<open>draw_legend_item\<close> with the swatch kind \<open>dash\<close>, leave the canvas in the solid state
  whatever state they were called in.  Hence a canvas that is solid stays solid through
  every sequence of helper calls, and after such a sequence every shape painted by a
  helper call that does not ask for dashes is solid.
\<close>

theorem dash_state_solid_between_helpers:
  assumes "dash (gs c) = []"
  shows "dash (gs (draw_dashed_rect c0 x y w h col width)) = []
    \<and> dash (gs (draw_legend_item c0 x y col label ''dash'')) = []
    \<and> dash (gs (foldl call c calls)) = []
    \<and> (\<not> sets_dash k \<longrightarrow>
         list_all (\<lambda>s. shape_dash s = [])
           (drop (length (page (foldl call c calls))) (page (call (foldl call c calls) k))))"
proof -
  let ?d = "foldl call c calls"
  have d: "dash (gs ?d) = []" using assms by (rule dash_calls)
  have "solid_from (length (page ?d)) (call ?d k)" if "\<not> sets_dash k"
    using that d by (intro solid_call solid_from_start)
  then show ?thesis
    using d dash_call [of c0 "DashedRect x y w h col width"]
      dash_call [of c0 "LegendItem x y col label ''dash''"]
    by (simp add: solid_from_def)
qed

text \<open>
  Claim C10 at a concrete run: on a fresh canvas, after a dashed rectangle and a dashed
  legend entry, the canvas is solid and a rack is painted solid.
\<close>

theorem dash_state_solid_between_helpers_witness:
  "dash (gs (Canvas ''sheet.pdf'' (landscape A4))) = []
  \<and> \<not> sets_dash (Rack 0 0 7 11 ''A01'' C_RACK_FILL)
  \<and> dash (gs (foldl call (Canvas ''sheet.pdf'' (landscape A4))
        [DashedRect 0 0 10 10 C_DASHED 0.6, LegendItem 0 20 C_COLD ''Cold Aisle'' ''dash''])) = []
  \<and> list_all (\<lambda>s. shape_dash s = [])
      (drop (length (page (foldl call (Canvas ''sheet.pdf'' (landscape A4))
          [DashedRect 0 0 10 10 C_DASHED 0.6, LegendItem 0 20 C_COLD ''Cold Aisle'' ''dash''])))
        (page (call (foldl call (Canvas ''sheet.pdf'' (landscape A4))
          [DashedRect 0 0 10 10 C_DASHED 0.6, LegendItem 0 20 C_COLD ''Cold Aisle'' ''dash''])
          (Rack 0 0 7 11 ''A01'' C_RACK_FILL))))"
proof -
  have s: "dash (gs (Canvas ''sheet.pdf'' (landscape A4))) = []"
    by (simp add: Canvas_def)
  have n: "\<not> sets_dash (Rack 0 0 7 11 ''A01'' C_RACK_FILL)"
    by simp
  show ?thesis
    using s n dash_state_solid_between_helpers [OF s,
        where calls = "[DashedRect 0 0 10 10 C_DASHED 0.6, LegendItem 0 20 C_COLD ''Cold Aisle'' ''dash'']"
        and k = "Rack 0 0 7 11 ''A01'' C_RACK_FILL"]
    by blast
qed

section \<open>The symbol library\<close>

lemma dxf_symbols_append:
  "add_room_box msp x y w h label ref col = msp @ add_room_box [] x y w h label ref col"
  "add_equipment msp x y w h label tag col dashed = msp @ add_equipment [] x y w h label tag col dashed"
  "add_bus_bar msp x y len label col horizontal = msp @ add_bus_bar [] x y len label col horizontal"
  "add_generator_symbol msp cx cy radius label tag col =
     msp @ add_generator_symbol [] cx cy radius label tag col"
  "add_transformer_symbol msp cx cy radius label col =
     msp @ add_transformer_symbol [] cx cy radius label col"
  "add_cb_symbol msp x y label col = msp @ add_cb_symbol [] x y label col"
  by (simp_all add: add_room_box_def add_equipment_def add_bus_bar_def add_generator_symbol_def
      add_transformer_symbol_def add_cb_symbol_def dxf_prims Let_def)

lemma rack_canvas:
  "draw_rack c x y w h label fill =
    c\<lparr>gs := (gs c)\<lparr>fillColor := white, strokeColor := C_RACK, lineWidth := 0.8,
           fontName := ''Helvetica-Bold'', fontSize := 4.5\<rparr>,
      page := page c @
        [Rect x y w h (Some fill)
           (Some \<lparr>stroke_color = C_RACK, stroke_width = 0.8, stroke_dash = dash (gs c)\<rparr>),
         DrawCentredString (x + w / 2) (y + h / 2 - 1.5) label
           \<lparr>font_name = ''Helvetica-Bold'', font_size = 4.5, font_color = white\<rparr>]\<rparr>"
  by (simp add: draw_rack_def pdf_prims Let_def)

lemma room_rest:
  "draw_room c x y w h label ref_id fill text_color =
    c\<lparr>gs := gs (draw_room c x y w h label ref_id fill text_color),
      page := page (draw_room c x y w h label ref_id fill text_color)\<rparr>"
  by (simp add: draw_room_def pdf_prims Let_def split: option.split)

lemma legend_rest:
  "draw_legend_item c x y col label shp =
    c\<lparr>gs := gs (draw_legend_item c x y col label shp),
      page := page (draw_legend_item c x y col label shp)\<rparr>"
  by (simp add: draw_legend_item_def pdf_prims Let_def)

text \<open>
  Claim C4, as stated, fails for the PDF renderer: \<open>draw_rack\<close> on a fresh canvas, whose
  fill colour is black, leaves the fill colour white, so the canvas after the call is not
  the canvas before the call with shapes appended.
\<close>

theorem draw_rack_changes_graphics_state:
  "fillColor (gs (Canvas ''rack.pdf'' (landscape A4))) = black
  \<and> fillColor (gs (draw_rack (Canvas ''rack.pdf'' (landscape A4)) 0 0 7 11 ''A01'' C_RACK_FILL)) = white
  \<and> draw_rack (Canvas ''rack.pdf'' (landscape A4)) 0 0 7 11 ''A01'' C_RACK_FILL \<noteq>
     (Canvas ''rack.pdf'' (landscape A4))
       \<lparr>page := page (draw_rack (Canvas ''rack.pdf'' (landscape A4)) 0 0 7 11 ''A01'' C_RACK_FILL)\<rparr>"
proof -
  let ?c = "Canvas ''rack.pdf'' (landscape A4)"
  let ?r = "draw_rack ?c 0 0 7 11 ''A01'' C_RACK_FILL"
  have w: "fillColor (gs ?r) = white" by (simp add: rack_canvas)
  have b: "fillColor (gs ?c) = black" by (simp add: Canvas_def)
  have "?r \<noteq> ?c\<lparr>page := page ?r\<rparr>"
  proof
    assume "?r = ?c\<lparr>page := page ?r\<rparr>"
    then have "fillColor (gs ?r) = fillColor (gs (?c\<lparr>page := page ?r\<rparr>))" by (rule arg_cong)
    with w b show False by simp
  qed
  with w b show ?thesis by blast
qed

text \<open>
  Claim C4, amended.  A DXF symbol function (room box, equipment block, bus bar,
  generator, transformer, circuit breaker) only appends to the modelspace, and what it
  appends depends on its parameters alone.  A PDF symbol function (\<open>draw_room\<close>,
  \<open>draw_rack\<close>, \<open>draw_legend_item\<close>) changes the page and the graphics state of the
  canvas and nothing else; it keeps the shapes already on the page, and the shapes it
  appends are the same in two calls with the same parameters on canvases with the same
  dash pattern.  \<open>draw_rack\<close> leaves the fill colour white, the stroke colour
  \<open>C_RACK\<close>, the line width 0.8 and the font Helvetica-Bold 4.5.
\<close>

theorem symbol_functions_effect:
  assumes "dash (gs c) = dash (gs c')"
  shows "add_room_box msp x y w h label ref ci = msp @ add_room_box [] x y w h label ref ci
    \<and> add_equipment msp x y w h label tag ci dashed = msp @ add_equipment [] x y w h label tag ci dashed
    \<and> add_bus_bar msp x y len label ci horizontal = msp @ add_bus_bar [] x y len label ci horizontal
    \<and> add_generator_symbol msp x y radius label tag ci = msp @ add_generator_symbol [] x y radius label tag ci
    \<and> add_transformer_symbol msp x y radius label ci = msp @ add_transformer_symbol [] x y radius label ci
    \<and> add_cb_symbol msp x y label ci = msp @ add_cb_symbol [] x y label ci
    \<and> draw_room c x y w h label ref_id fill text_color =
        c\<lparr>gs := gs (draw_room c x y w h label ref_id fill text_color),
          page := page c @ drop (length (page c)) (page (draw_room c x y w h label ref_id fill text_color))\<rparr>
    \<and> drop (length (page c)) (page (draw_room c x y w h label ref_id fill text_color)) =
        drop (length (page c')) (page (draw_room c' x y w h label ref_id fill text_color))
    \<and> draw_rack c x y w h label fill =
        c\<lparr>gs := gs (draw_rack c x y w h label fill),
          page := page c @ drop (length (page c)) (page (draw_rack c x y w h label fill))\<rparr>
    \<and> drop (length (page c)) (page (draw_rack c x y w h label fill)) =
        drop (length (page c')) (page (draw_rack c' x y w h label fill))
    \<and> gs (draw_rack c x y w h label fill) =
        (gs c)\<lparr>fillColor := white, strokeColor := C_RACK, lineWidth := 0.8,
          fontName := ''Helvetica-Bold'', fontSize := 4.5\<rparr>
    \<and> draw_legend_item c x y fill label shp =
        c\<lparr>gs := gs (draw_legend_item c x y fill label shp),
          page := page c @ drop (length (page c)) (page (draw_legend_item c x y fill label shp))\<rparr>
    \<and> drop (length (page c)) (page (draw_legend_item c x y fill label shp)) =
        drop (length (page c')) (page (draw_legend_item c' x y fill label shp))"
proof -
  have room: "drop (length (page c)) (page (draw_room c x y w h label ref_id fill text_color)) =
        drop (length (page c')) (page (draw_room c' x y w h label ref_id fill text_color))"
    using assms by (simp add: room_page)
  have rack: "drop (length (page c)) (page (draw_rack c x y w h label fill)) =
        drop (length (page c')) (page (draw_rack c' x y w h label fill))"
    using assms by (simp add: rack_canvas)
  have leg: "drop (length (page c)) (page (draw_legend_item c x y fill label shp)) =
        drop (length (page c')) (page (draw_legend_item c' x y fill label shp))"
    using assms by (simp add: legend_page)
  have "page c @ drop (length (page c)) (page (draw_room c x y w h label ref_id fill text_color)) =
      page (draw_room c x y w h label ref_id fill text_color)"
    by (simp add: room_page)
  with room_rest [of c x y w h label ref_id fill text_color]
  have room2: "draw_room c x y w h label ref_id fill text_color =
        c\<lparr>gs := gs (draw_room c x y w h label ref_id fill text_color),
          page := page c @ drop (length (page c)) (page (draw_room c x y w h label ref_id fill text_color))\<rparr>"
    by simp
  have rack2: "draw_rack c x y w h label fill =
        c\<lparr>gs := gs (draw_rack c x y w h label fill),
          page := page c @ drop (length (page c)) (page (draw_rack c x y w h label fill))\<rparr>"
    by (simp add: rack_canvas)
  have "page c @ drop (length (page c)) (page (draw_legend_item c x y fill label shp)) =
      page (draw_legend_item c x y fill label shp)"
    by (simp add: legend_page)
  with legend_rest [of c x y fill label shp]
  have leg2: "draw_legend_item c x y fill label shp =
        c\<lparr>gs := gs (draw_legend_item c x y fill label shp),
          page := page c @ drop (length (page c)) (page (draw_legend_item c x y fill label shp))\<rparr>"
    by simp
  have rack3: "gs (draw_rack c x y w h label fill) =
        (gs c)\<lparr>fillColor := white, strokeColor := C_RACK, lineWidth := 0.8,
          fontName := ''Helvetica-Bold'', fontSize := 4.5\<rparr>"
    by (simp add: rack_canvas)
  show ?thesis
    using room rack leg room2 rack2 leg2 rack3
      dxf_symbols_append(1) [of msp x y w h label ref ci]
      dxf_symbols_append(2) [of msp x y w h label tag ci dashed]
      dxf_symbols_append(3) [of msp x y len label ci horizontal]
      dxf_symbols_append(4) [of msp x y radius label tag ci]
      dxf_symbols_append(5) [of msp x y radius label ci]
      dxf_symbols_append(6) [of msp x y label ci]
    by (intro conjI)
qed

text \<open>
  Claim C4, amended, at a concrete pair of runs: a fresh canvas and a canvas on which a
  room has been drawn have the same dash pattern, and a rack and a legend entry drawn on
  either append the same shapes.
\<close>

theorem symbol_functions_effect_witness:
  "dash (gs (Canvas ''a.pdf'' (landscape A4))) =
     dash (gs (draw_room (Canvas ''b.pdf'' (landscape A4)) 0 0 20 10 ''NOC'' None C_WALL_FILL C_WALL))
  \<and> drop (length (page (Canvas ''a.pdf'' (landscape A4))))
       (page (draw_rack (Canvas ''a.pdf'' (landscape A4)) 0 0 7 11 ''A01'' C_RACK_FILL)) =
     drop (length (page (draw_room (Canvas ''b.pdf'' (landscape A4)) 0 0 20 10 ''NOC'' None C_WALL_FILL C_WALL)))
       (page (draw_rack (draw_room (Canvas ''b.pdf'' (landscape A4)) 0 0 20 10 ''NOC'' None C_WALL_FILL C_WALL)
          0 0 7 11 ''A01'' C_RACK_FILL))
  \<and> add_cb_symbol [LINE (0, 0) (1, 1) no_attribs] 0 0 ''A01'' WHITE =
     [LINE (0, 0) (1, 1) no_attribs] @ add_cb_symbol [] 0 0 ''A01'' WHITE"
proof -
  have d: "dash (gs (Canvas ''a.pdf'' (landscape A4))) =
     dash (gs (draw_room (Canvas ''b.pdf'' (landscape A4)) 0 0 20 10 ''NOC'' None C_WALL_FILL C_WALL))"
    by (simp add: draw_room_def Let_def Canvas_def)
  show ?thesis
    using d symbol_functions_effect [OF d, where msp = "[LINE (0, 0) (1, 1) no_attribs]"
        and x = 0 and y = 0 and w = 7 and h = 11 and label = "''A01''" and fill = C_RACK_FILL
        and ci = WHITE]
    by blast
qed

section \<open>The batch\<close>


lemma kept_trans: "kept a b \<Longrightarrow> kept b c \<Longrightarrow> kept a c"
  by (auto simp: kept_def)







































end
